theory Spec2Isabelle
  imports Main "HOL-Library.Word"
begin

unbundle bit_operations_syntax

section \<open>Constants of the system headers\<close>

text \<open>
  The listener code of \<^verbatim>\<open>unix_like_serial_lib.c\<close> compares against constants that come
  from the operating system's headers (\<^verbatim>\<open>errno.h\<close>, \<^verbatim>\<open>termios.h\<close>, \<^verbatim>\<open>sys/epoll.h\<close>,
  \<^verbatim>\<open>sys/event.h\<close>, \<^verbatim>\<open>IOKit/IOMessage.h\<close>).  Their values are not part of the repository,
  so every function below takes them as a parameter \<open>K\<close>.  \<open>ENOENT\<close> is not named by the
  source; it is carried along to speak about a probe that fails with
  "no such file or directory".
\<close>

record sys_consts =
  EINTR :: int
  EACCES :: int
  ELOOP :: int
  ENAMETOOLONG :: int
  ENOMEM :: int
  ENOTDIR :: int
  EOVERFLOW :: int
  EFAULT :: int
  ENOENT :: int
  TIOCM_CTS :: int
  TIOCM_DSR :: int
  TIOCM_CD :: int
  TIOCM_RI :: int
  EPOLLIN :: int
  EPOLLERR :: int
  EPOLLHUP :: int
  EV_ERROR :: int
  kIOMessageServiceIsTerminated :: int

text \<open>The values a Linux system gives these names (the kqueue and IOKit entries are
  those of macOS, which the Linux build never reads).\<close>

definition linux_headers :: sys_consts where
  "linux_headers =
     \<lparr> EINTR = 4, EACCES = 13, ELOOP = 40, ENAMETOOLONG = 36, ENOMEM = 12, ENOTDIR = 20,
       EOVERFLOW = 75, EFAULT = 14, ENOENT = 2,
       TIOCM_CTS = 0x020, TIOCM_DSR = 0x100, TIOCM_CD = 0x040, TIOCM_RI = 0x080,
       EPOLLIN = 0x001, EPOLLERR = 0x008, EPOLLHUP = 0x010,
       EV_ERROR = 0x4000, kIOMessageServiceIsTerminated = 0xe0000010 \<rparr>"

text \<open>The values macOS gives them (the epoll entries are those of Linux, which the macOS
  build never reads).\<close>

definition darwin_headers :: sys_consts where
  "darwin_headers =
     \<lparr> EINTR = 4, EACCES = 13, ELOOP = 62, ENAMETOOLONG = 63, ENOMEM = 12, ENOTDIR = 20,
       EOVERFLOW = 84, EFAULT = 14, ENOENT = 2,
       TIOCM_CTS = 0x020, TIOCM_DSR = 0x100, TIOCM_CD = 0x040, TIOCM_RI = 0x080,
       EPOLLIN = 0x001, EPOLLERR = 0x008, EPOLLHUP = 0x010,
       EV_ERROR = 0x4000, kIOMessageServiceIsTerminated = 0xe0000010 \<rparr>"

text \<open>The two branches of \<^verbatim>\<open>#if defined (__linux__)\<close> / \<^verbatim>\<open>#if defined (__APPLE__)\<close>.\<close>

datatype platform = Linux | Apple

text \<open>Undefined behaviour of the C code (an access outside an array, a dereference of a
  pointer to nothing) is a value.\<close>

datatype fault = Out_of_bounds | Invalid_pointer

section \<open>\<^verbatim>\<open>serial_delay\<close>\<close>

record timespec =
  tv_sec :: int
  tv_nsec :: int

text \<open>
  \<^verbatim>\<open>serial_delay\<close> fills a \<^verbatim>\<open>struct timespec\<close> and hands it to \<^verbatim>\<open>pselect\<close> with no
  descriptor to watch, so the call sleeps for the time the structure holds.  The model
  returns the function's result together with that structure.  The argument is
  \<^verbatim>\<open>unsigned\<close>, so the division is the unsigned one.
\<close>

definition serial_delay :: "32 word \<Rightarrow> int \<times> timespec" where
  "serial_delay milliSeconds =
     (let t = \<lparr> tv_sec = uint (milliSeconds div 1000), tv_nsec = 0 \<rparr>
      in (0, t))"

section \<open>The data listener thread \<^verbatim>\<open>data_looper\<close>\<close>

type_synonym jbyte = "8 word"

text \<open>
  What the listener hands to the Java object \<^verbatim>\<open>looper\<close> or \<^verbatim>\<open>port_listener\<close>: one
  constructor for each method it calls through \<^verbatim>\<open>CallVoidMethod\<close>.
\<close>

datatype sink_call =
    InsertInDataQueue "jbyte list"
  | InsertInDataErrorQueue int
  | InsertInEventQueue int
  | OnPortMonitorEvent int

text \<open>
  One answer of the operating system to \<^verbatim>\<open>read(fd, buffer, sizeof(buffer))\<close>: either
  bytes were transferred (and \<^verbatim>\<open>errno\<close> reads as the given value afterwards; the code
  has set it to 0 before the call), or the call failed with \<^verbatim>\<open>-1\<close> and an error number.
  \<^verbatim>\<open>read\<close> never transfers more than the \<open>count\<close> it is given; the bytes land at the
  start of the buffer and the rest of the buffer keeps its old contents.
\<close>

datatype read_reply = Bytes_read "jbyte list" int | Read_failed int

definition sys_read :: "nat \<Rightarrow> read_reply \<Rightarrow> (nat \<Rightarrow> jbyte) \<Rightarrow> int \<times> int \<times> (nat \<Rightarrow> jbyte)" where
  "sys_read count r buf =
     (case r of
        Bytes_read bs e \<Rightarrow>
          (let n = min count (length bs)
           in (int n, e, \<lambda>j. if j < n then bs ! j else buf j))
      | Read_failed e \<Rightarrow> (- 1, e, buf))"

text \<open>
  The local variables of \<^verbatim>\<open>data_looper\<close> that live across iterations.  The arrays
  \<^verbatim>\<open>jbyte buffer[1024]\<close> and \<^verbatim>\<open>jbyte final_buf[1024 * 3]\<close> are functions from the index to
  the cell, and every access checks the index against the declared size.  \<open>stores\<close> is
  not a variable of the source: it records, in order, the positions of \<^verbatim>\<open>final_buf\<close>
  that have been written, and nothing reads it.  The C \<^verbatim>\<open>int\<close>s are integers here:
  \<^verbatim>\<open>index\<close> never exceeds 1024 and \<^verbatim>\<open>errorCount\<close> is reset at 100, so none of the
  loop's additions can leave the range of a 32-bit \<^verbatim>\<open>int\<close>.
\<close>

record looper_state =
  index :: int
  partialData :: int
  errorCount :: int
  buffer :: "nat \<Rightarrow> jbyte"
  final_buf :: "nat \<Rightarrow> jbyte"
  stores :: "int list"

definition buffer_size :: int where
  "buffer_size = 1024"

definition final_buf_size :: int where
  "final_buf_size = 1024 * 3"

text \<open>The state at thread start; \<open>b0\<close> and \<open>f0\<close> are whatever the stack holds where the
  two uninitialised arrays are placed.\<close>

definition data_looper_init :: "(nat \<Rightarrow> jbyte) \<Rightarrow> (nat \<Rightarrow> jbyte) \<Rightarrow> looper_state" where
  "data_looper_init b0 f0 =
     \<lparr> index = 0, partialData = - 1, errorCount = 0, buffer = b0, final_buf = f0, stores = [] \<rparr>"

text \<open>\<^verbatim>\<open>for(i = index; i < ret; i++) { final_buf[i] = buffer[i]; }\<close>, entered with
  \<open>i = index\<close>.\<close>

function copy_partial :: "int \<Rightarrow> int \<Rightarrow> looper_state \<Rightarrow> fault + looper_state" where
  "copy_partial i ret s =
     (if i < ret then
        (if 0 \<le> i \<and> i < final_buf_size \<and> i < buffer_size then
           copy_partial (i + 1) ret
             (s\<lparr> final_buf := (final_buf s)(nat i := buffer s (nat i)),
                 stores := stores s @ [i] \<rparr>)
         else Inl Out_of_bounds)
      else Inr s)"
  by pat_completeness auto
termination
  by (relation "measure (\<lambda>(i, ret, s). nat (ret - i))") auto

declare copy_partial.simps [simp del]

text \<open>\<^verbatim>\<open>NewByteArray(env, n)\<close> followed by \<^verbatim>\<open>SetByteArrayRegion(env, dataRead, 0, n, src)\<close>:
  the first \<open>n\<close> cells of an array of \<open>cap\<close> cells.\<close>

definition byte_array_region :: "int \<Rightarrow> int \<Rightarrow> (nat \<Rightarrow> jbyte) \<Rightarrow> fault + jbyte list" where
  "byte_array_region cap n src =
     (if 0 \<le> n \<and> n \<le> cap then Inr (map src [0 ..< nat n]) else Inl Out_of_bounds)"

text \<open>
  How the \<^verbatim>\<open>do { ... } while(1)\<close> around \<^verbatim>\<open>read\<close> is left: with an array to deliver
  (\<^verbatim>\<open>data_available = 1\<close>), after the error call, on a read of zero bytes, or not at all
  within the answers the environment has given so far.
\<close>

datatype read_end =
    Data_available "jbyte list"
  | Read_error int
  | Zero_read
  | Reads_pending

fun read_loop :: "sys_consts \<Rightarrow> read_reply list \<Rightarrow> looper_state \<Rightarrow> fault + (looper_state \<times> read_end)" where
  "read_loop K [] s = Inr (s, Reads_pending)"
| "read_loop K (r # rs) s =
     (case sys_read (nat buffer_size) r (buffer s) of (ret, errno, buf) \<Rightarrow>
        (let s1 = s\<lparr> buffer := buf \<rparr> in
         if ret > 0 \<and> errno = 0 then
           (if partialData s1 = 1 then
              (case copy_partial (index s1) ret s1 of
                 Inl f \<Rightarrow> Inl f
               | Inr s2 \<Rightarrow>
                   (case byte_array_region final_buf_size (index s2 + ret) (final_buf s2) of
                      Inl f \<Rightarrow> Inl f
                    | Inr dataRead \<Rightarrow> Inr (s2, Data_available dataRead)))
            else
              (case byte_array_region buffer_size ret (buffer s1) of
                 Inl f \<Rightarrow> Inl f
               | Inr dataRead \<Rightarrow> Inr (s1, Data_available dataRead)))
         else if ret > 0 \<and> errno = EINTR K then
           (case copy_partial (index s1) ret s1 of
              Inl f \<Rightarrow> Inl f
            | Inr s2 \<Rightarrow> read_loop K rs (s2\<lparr> index := ret, partialData := 1 \<rparr>))
         else if ret < 0 then
           (if errno = EINTR K then read_loop K rs s1
            else Inr (s1, Read_error errno))
         else if ret = 0 then Inr (s1, Zero_read)
         else read_loop K rs s1))"

text \<open>
  One entry of the array that \<^verbatim>\<open>epoll_wait\<close> or \<^verbatim>\<open>kevent\<close> fills.  \<open>ev_ident\<close> is
  \<^verbatim>\<open>events[n].data.fd\<close> on Linux and \<^verbatim>\<open>evlist[n].ident\<close> on macOS, \<open>ev_flags\<close> is
  \<^verbatim>\<open>events[n].events\<close> on Linux and \<^verbatim>\<open>evlist[n].flags\<close> on macOS, \<open>ev_data\<close> is
  \<^verbatim>\<open>evlist[n].data\<close>.
\<close>

record wait_event =
  ev_ident :: int
  ev_flags :: int
  ev_data :: int

text \<open>
  What one pass of the \<^verbatim>\<open>while(1)\<close> loop meets: the return value of the wait call, the
  first two entries of the event array, the value of \<^verbatim>\<open>data_thread_exit\<close> at the moment
  the thread looks at it, and the answers to the reads it issues.
\<close>

record wakeup =
  wait_ret :: int
  ev0 :: wait_event
  ev1 :: wait_event
  data_thread_exit :: int
  read_replies :: "read_reply list"

datatype thread_status = Running | Exited | In_read

definition port_readable :: "sys_consts \<Rightarrow> platform \<Rightarrow> int \<Rightarrow> wait_event \<Rightarrow> bool" where
  "port_readable K p fd e =
     (case p of
        Linux \<Rightarrow> (ev_flags e AND EPOLLIN K) \<noteq> 0 \<and> \<not> ((ev_flags e AND EPOLLERR K) \<noteq> 0)
      | Apple \<Rightarrow> ev_ident e = fd \<and> \<not> ((ev_flags e AND EV_ERROR K) \<noteq> 0))"

definition port_error :: "sys_consts \<Rightarrow> platform \<Rightarrow> wait_event \<Rightarrow> bool" where
  "port_error K p e =
     (case p of
        Linux \<Rightarrow> (ev_flags e AND (EPOLLERR K OR EPOLLHUP K)) \<noteq> 0
      | Apple \<Rightarrow> (ev_flags e AND EV_ERROR K) \<noteq> 0)"

definition port_error_code :: "platform \<Rightarrow> wait_event \<Rightarrow> int" where
  "port_error_code p e = (case p of Linux \<Rightarrow> ev_flags e | Apple \<Rightarrow> ev_data e)"

text \<open>
  One pass of the \<^verbatim>\<open>while(1)\<close> loop of \<^verbatim>\<open>data_looper\<close>.  \<open>fd\<close> is the port, \<open>wake\<close> the
  descriptor that the unregistering caller makes readable (\<^verbatim>\<open>evfd\<close> on Linux,
  \<^verbatim>\<open>pipe1[0]\<close> on macOS).
\<close>

definition data_looper_pass ::
  "sys_consts \<Rightarrow> platform \<Rightarrow> int \<Rightarrow> int \<Rightarrow> wakeup \<Rightarrow> looper_state
     \<Rightarrow> fault + (looper_state \<times> sink_call list \<times> thread_status)" where
  "data_looper_pass K p fd wake w s =
     (if wait_ret w \<le> 0 then Inr (s, [], Running)
      else if (ev_ident (ev0 w) = wake \<or> ev_ident (ev1 w) = wake) \<and> 1 = data_thread_exit w
      then Inr (s, [], Exited)
      else if port_readable K p fd (ev0 w) then
        (case read_loop K (read_replies w) s of
           Inl f \<Rightarrow> Inl f
         | Inr (s', Data_available dataRead) \<Rightarrow> Inr (s', [InsertInDataQueue dataRead], Running)
         | Inr (s', Read_error e) \<Rightarrow> Inr (s', [InsertInDataErrorQueue e], Running)
         | Inr (s', Zero_read) \<Rightarrow> Inr (s', [], Running)
         | Inr (s', Reads_pending) \<Rightarrow> Inr (s', [], In_read))
      else if port_error K p (ev0 w) then
        (let s1 = s\<lparr> errorCount := errorCount s + 1 \<rparr> in
         if errorCount s1 = 100
         then Inr (s1\<lparr> errorCount := 0 \<rparr>, [InsertInDataErrorQueue (port_error_code p (ev0 w))], Running)
         else Inr (s1, [], Running))
      else Inr (s, [], Running))"

text \<open>The loop over the wake-ups the environment produces; it stops when the thread has
  exited, has faulted, or sits in a read that has not been answered.\<close>

fun data_looper_run ::
  "sys_consts \<Rightarrow> platform \<Rightarrow> int \<Rightarrow> int \<Rightarrow> wakeup list \<Rightarrow> looper_state
     \<Rightarrow> fault + (looper_state \<times> sink_call list \<times> thread_status)" where
  "data_looper_run K p fd wake [] s = Inr (s, [], Running)"
| "data_looper_run K p fd wake (w # ws) s =
     (case data_looper_pass K p fd wake w s of
        Inl f \<Rightarrow> Inl f
      | Inr (s', calls, Running) \<Rightarrow>
          (case data_looper_run K p fd wake ws s' of
             Inl f \<Rightarrow> Inl f
           | Inr (s'', calls', st) \<Rightarrow> Inr (s'', calls @ calls', st))
      | Inr (s', calls, st) \<Rightarrow> Inr (s', calls, st))"

text \<open>
  The bound that the carry index and the stores into \<^verbatim>\<open>final_buf\<close> are to respect: the
  index lies between 0 and the size of \<^verbatim>\<open>buffer\<close>, and every position written so far
  lies below that size.
\<close>

definition stores_below :: "looper_state \<Rightarrow> bool" where
  "stores_below s \<longleftrightarrow>
     0 \<le> index s \<and> index s \<le> buffer_size \<and>
     (\<forall>i \<in> set (stores s). 0 \<le> i \<and> i < buffer_size)"

text \<open>
  A wake-up that reports an error on the port while nobody has asked the thread to
  exit: the wait call returns a positive count and the first event carries
  \<^verbatim>\<open>EPOLLERR\<close> (Linux) or \<^verbatim>\<open>EV_ERROR\<close> (macOS).
\<close>

definition link_error :: "sys_consts \<Rightarrow> platform \<Rightarrow> wakeup \<Rightarrow> bool" where
  "link_error K p w \<longleftrightarrow>
     wait_ret w > 0 \<and> data_thread_exit w \<noteq> 1 \<and>
     (case p of
        Linux \<Rightarrow> (ev_flags (ev0 w) AND EPOLLERR K) \<noteq> 0
      | Apple \<Rightarrow> (ev_flags (ev0 w) AND EV_ERROR K) \<noteq> 0)"

text \<open>Sample wake-ups for a port on descriptor 7: an error event, a transfer that
  arrives as four bytes with \<^verbatim>\<open>EINTR\<close> and then six bytes, and a later transfer of two
  bytes read in one piece.\<close>

definition storm_event :: wakeup where
  "storm_event =
     \<lparr> wait_ret = 1,
       ev0 = \<lparr> ev_ident = 7, ev_flags = 8, ev_data = 0 \<rparr>,
       ev1 = \<lparr> ev_ident = 0, ev_flags = 0, ev_data = 0 \<rparr>,
       data_thread_exit = 0, read_replies = [] \<rparr>"

definition partial_then_complete :: wakeup where
  "partial_then_complete =
     \<lparr> wait_ret = 1,
       ev0 = \<lparr> ev_ident = 7, ev_flags = 1, ev_data = 0 \<rparr>,
       ev1 = \<lparr> ev_ident = 0, ev_flags = 0, ev_data = 0 \<rparr>,
       data_thread_exit = 0,
       read_replies = [Bytes_read [1, 2, 3, 4] 4, Bytes_read [5, 6, 7, 8, 9, 10] 0] \<rparr>"

definition fresh_read :: wakeup where
  "fresh_read =
     \<lparr> wait_ret = 1,
       ev0 = \<lparr> ev_ident = 7, ev_flags = 1, ev_data = 0 \<rparr>,
       ev1 = \<lparr> ev_ident = 0, ev_flags = 0, ev_data = 0 \<rparr>,
       data_thread_exit = 0,
       read_replies = [Bytes_read [20, 21] 0] \<rparr>"

section \<open>The event listener thread \<^verbatim>\<open>event_looper\<close>\<close>

definition CTS :: int where "CTS = 0x01"
definition DSR :: int where "DSR = 0x02"
definition DCD :: int where "DCD = 0x04"
definition RI :: int where "RI = 0x08"

text \<open>The part of the loop body between the \<^verbatim>\<open>TIOCMGET\<close> call and the delivery: the four
  modem lines are read off \<^verbatim>\<open>lines_status\<close> and or-ed into \<^verbatim>\<open>event\<close>, which starts at 0.\<close>

definition decode_lines :: "sys_consts \<Rightarrow> int \<Rightarrow> int" where
  "decode_lines K lines_status =
     (let cts = (if (lines_status AND TIOCM_CTS K) \<noteq> 0 then 1 else 0 :: int);
          dsr = (if (lines_status AND TIOCM_DSR K) \<noteq> 0 then 1 else 0 :: int);
          dcd = (if (lines_status AND TIOCM_CD K) \<noteq> 0 then 1 else 0 :: int);
          ri = (if (lines_status AND TIOCM_RI K) \<noteq> 0 then 1 else 0 :: int);
          event = 0;
          event = (if cts \<noteq> 0 then event OR CTS else event);
          event = (if dsr \<noteq> 0 then event OR DSR else event);
          event = (if dcd \<noteq> 0 then event OR DCD else event);
          event = (if ri \<noteq> 0 then event OR RI else event)
      in event)"

text \<open>
  What one pass of the loop meets: the result of \<^verbatim>\<open>ioctl(fd, TIOCMIWAIT, ...)\<close> (Linux
  only; macOS sleeps half a second instead), the result of \<^verbatim>\<open>ioctl(fd, TIOCMGET,
  &lines_status)\<close> and the status word it stored.
\<close>

record status_cycle =
  iwait_ret :: int
  mget_ret :: int
  lines_status :: int

text \<open>One pass of the \<^verbatim>\<open>while(1)\<close> loop of \<^verbatim>\<open>event_looper\<close>.  The only variable that
  lives across passes is \<^verbatim>\<open>oldstate\<close>, which the Linux build does not have.\<close>

definition event_looper_pass ::
  "sys_consts \<Rightarrow> platform \<Rightarrow> status_cycle \<Rightarrow> int \<Rightarrow> int \<times> sink_call list" where
  "event_looper_pass K p c oldstate =
     (if p = Linux \<and> iwait_ret c < 0 then (oldstate, [])
      else if mget_ret c < 0 then (oldstate, [])
      else
        (let event = decode_lines K (lines_status c) in
         case p of
           Linux \<Rightarrow> (oldstate, [InsertInEventQueue event])
         | Apple \<Rightarrow>
             (let newstate = event in
              if newstate \<noteq> oldstate then (newstate, [InsertInEventQueue event])
              else (oldstate, []))))"

fun event_looper_run ::
  "sys_consts \<Rightarrow> platform \<Rightarrow> status_cycle list \<Rightarrow> int \<Rightarrow> int \<times> sink_call list" where
  "event_looper_run K p [] oldstate = (oldstate, [])"
| "event_looper_run K p (c # cs) oldstate =
     (case event_looper_pass K p c oldstate of
        (oldstate', calls) \<Rightarrow>
          (case event_looper_run K p cs oldstate' of
             (oldstate'', calls') \<Rightarrow> (oldstate'', calls @ calls')))"

text \<open>\<^verbatim>\<open>int oldstate = 0;\<close> at thread start.\<close>

definition event_looper_init :: int where
  "event_looper_init = 0"

text \<open>
  A pass in which both \<^verbatim>\<open>ioctl\<close> calls succeed and the status word shows DSR, DCD and RI
  low and CTS as \<open>up\<close> says; and two such passes with the bit Linux and macOS use for
  \<^verbatim>\<open>TIOCM_CTS\<close>.
\<close>

definition cts_only :: "sys_consts \<Rightarrow> status_cycle \<Rightarrow> bool \<Rightarrow> bool" where
  "cts_only K c up \<longleftrightarrow>
     0 \<le> iwait_ret c \<and> 0 \<le> mget_ret c \<and>
     ((lines_status c AND TIOCM_CTS K) \<noteq> 0) = up \<and>
     (lines_status c AND TIOCM_DSR K) = 0 \<and>
     (lines_status c AND TIOCM_CD K) = 0 \<and>
     (lines_status c AND TIOCM_RI K) = 0"

definition cts_low :: status_cycle where
  "cts_low = \<lparr> iwait_ret = 0, mget_ret = 0, lines_status = 0 \<rparr>"

definition cts_high :: status_cycle where
  "cts_high = \<lparr> iwait_ret = 0, mget_ret = 0, lines_status = 0x020 \<rparr>"

section \<open>The port monitor\<close>

text \<open>
  The chain of \<^verbatim>\<open>errno\<close> tests after \<^verbatim>\<open>ret = stat(port_name, &st)\<close>.  It stands twice in
  the source with the same text, in \<^verbatim>\<open>device_removed\<close> (macOS) and in the \<^verbatim>\<open>"remove"\<close>
  branch of \<^verbatim>\<open>port_monitor\<close> (Linux); the branches that only print are empty here.
\<close>

definition stat_probe :: "sys_consts \<Rightarrow> int \<Rightarrow> int \<Rightarrow> sink_call list" where
  "stat_probe K ret errno =
     (if ret = 0 then []
      else if errno = EACCES K then []
      else if errno = ELOOP K then []
      else if errno = ENAMETOOLONG K then []
      else if errno = ENOMEM K then []
      else if errno = ENOTDIR K then []
      else if errno = EOVERFLOW K then []
      else if errno = EFAULT K then []
      else [OnPortMonitorEvent 2])"

subsection \<open>Linux: the udev loop of \<^verbatim>\<open>port_monitor\<close>\<close>

text \<open>
  What one pass of the loop meets: the result of \<^verbatim>\<open>select\<close>, whether the udev descriptor
  is set, the device received (\<open>None\<close> for a null pointer, otherwise its action string)
  and the answer of \<^verbatim>\<open>stat\<close> on the port's path.
\<close>

record udev_wakeup =
  select_ret :: int
  fd_isset :: bool
  device_action :: "string option"
  stat_ret :: int
  stat_errno :: int

text \<open>What the monitor does that can be seen from outside: it sleeps in \<^verbatim>\<open>pselect\<close> for
  the time of a \<^verbatim>\<open>timespec\<close>, and it calls the listener.\<close>

datatype effect = Sleep timespec | Sink sink_call

text \<open>One pass of the \<^verbatim>\<open>while(1)\<close> loop.  \<^verbatim>\<open>strcpy\<close> into \<^verbatim>\<open>char action[32]\<close> needs room
  for the string and its terminator.\<close>

definition port_monitor_pass :: "sys_consts \<Rightarrow> udev_wakeup \<Rightarrow> fault + effect list" where
  "port_monitor_pass K w =
     (if select_ret w > 0 \<and> fd_isset w then
        (case device_action w of
           None \<Rightarrow> Inr []
         | Some action \<Rightarrow>
             (if length action + 1 > 32 then Inl Out_of_bounds
              else
                (let delay = [Sleep (snd (serial_delay 500))] in
                 if action = ''add'' then Inr (delay @ [Sink (OnPortMonitorEvent 1)])
                 else if action = ''remove''
                 then Inr (delay @ map Sink (stat_probe K (stat_ret w) (stat_errno w)))
                 else Inr delay)))
      else Inr [])"

subsection \<open>macOS: the IOKit callbacks\<close>





text \<open>\<^verbatim>\<open>device_removed\<close>: the arguments that matter are the message type and the answer of
  \<^verbatim>\<open>stat\<close>.\<close>

definition device_removed :: "sys_consts \<Rightarrow> int \<Rightarrow> int \<Rightarrow> int \<Rightarrow> sink_call list" where
  "device_removed K messageType ret errno =
     (if messageType = kIOMessageServiceIsTerminated K then stat_probe K ret errno else [])"







subsection \<open>Inputs of the port monitor\<close>

text \<open>The wake-up of the udev loop for a removed device, with the answer of \<^verbatim>\<open>stat\<close>.\<close>

definition removal_wakeup :: "int \<Rightarrow> int \<Rightarrow> udev_wakeup" where
  "removal_wakeup ret errno =
     \<lparr> select_ret = 1, fd_isset = True, device_action = Some ''remove'',
       stat_ret = ret, stat_errno = errno \<rparr>"

text \<open>The error numbers for which the source only prints a message.\<close>

definition benign_errnos :: "sys_consts \<Rightarrow> int set" where
  "benign_errnos K =
     {EACCES K, ELOOP K, ENAMETOOLONG K, ENOMEM K, ENOTDIR K, EOVERFLOW K, EFAULT K}"





section \<open>Windows: registering and unregistering the looper thread\<close>

text \<open>
  The event bits of \<^verbatim>\<open>windows.h\<close> that \<^verbatim>\<open>windows_serial.c\<close> names.  Like the constants of
  the Unix headers they are a parameter \<open>W\<close>; \<open>winbase_h\<close> holds the values of the
  Windows SDK.
\<close>

record win_consts =
  EV_RXCHAR :: int
  EV_RXFLAG :: int
  EV_CTS :: int
  EV_DSR :: int
  EV_RLSD :: int
  EV_BREAK :: int
  EV_ERR :: int
  EV_RING :: int

definition winbase_h :: win_consts where
  "winbase_h =
     \<lparr> EV_RXCHAR = 0x0001, EV_RXFLAG = 0x0002, EV_CTS = 0x0008, EV_DSR = 0x0010,
       EV_RLSD = 0x0020, EV_BREAK = 0x0040, EV_ERR = 0x0080, EV_RING = 0x0100 \<rparr>"

definition MAX_NUM_THREADS :: nat where
  "MAX_NUM_THREADS = 1024"

text \<open>
  \<^verbatim>\<open>struct looper_thread_params\<close> is declared in \<^verbatim>\<open>windows_serial_lib.h\<close>, which is not
  among the sources; the record has the fields that \<^verbatim>\<open>windows_serial.c\<close> assigns or
  compares (the shared \<^verbatim>\<open>jvm\<close> and \<^verbatim>\<open>mutex\<close> pointers are left out).
\<close>

record looper_thread_params =
  hComm :: int
  looper_ref :: nat
  data_enabled :: int
  event_enabled :: int
  thread_exit :: int
  thread_handle :: int

text \<open>
  The globals \<^verbatim>\<open>dtp_index\<close> and \<^verbatim>\<open>handle_looper_info\<close>, the number of times the critical
  section \<^verbatim>\<open>csmutex\<close> is held by the calling thread, and, for every port handle, the
  event mask its driver currently waits for (what \<^verbatim>\<open>GetCommMask\<close> reads and
  \<^verbatim>\<open>SetCommMask\<close> writes).
\<close>

record registry =
  dtp_index :: int
  handle_looper_info :: "nat \<Rightarrow> looper_thread_params"
  csmutex_held :: nat
  comm_mask :: "int \<Rightarrow> int"

text \<open>\<^verbatim>\<open>handle_looper_info[MAX_NUM_THREADS] = { {0} }\<close> and \<^verbatim>\<open>dtp_index = 0\<close>.\<close>

definition registry_init :: "(int \<Rightarrow> int) \<Rightarrow> registry" where
  "registry_init masks =
     \<lparr> dtp_index = 0,
       handle_looper_info =
         (\<lambda>_. \<lparr> hComm = 0, looper_ref = 0, data_enabled = 0, event_enabled = 0,
                thread_exit = 0, thread_handle = 0 \<rparr>),
       csmutex_held = 0,
       comm_mask = masks \<rparr>"

text \<open>
  What the calls into the JVM and the operating system answer during one call of a
  function below: the global reference from \<^verbatim>\<open>NewGlobalRef\<close> (0 is \<^verbatim>\<open>NULL\<close>), the handle
  from \<^verbatim>\<open>_beginthreadex\<close> (0 on failure), whether \<^verbatim>\<open>GetCommMask\<close> and \<^verbatim>\<open>SetCommMask\<close>
  succeed, and the contents of the locals that are read before they are assigned.
  \<open>thread_init_result\<close> is what the initialisation of the spawned thread goes on to
  report; none of the functions reads it.
\<close>

record win_env =
  new_global_ref :: nat
  beginthreadex :: int
  get_comm_mask_ok :: bool
  set_comm_mask_ok :: bool
  uninitialised :: int
  thread_init_result :: int

text \<open>The \<^verbatim>\<open>for(x=0; x<MAX_NUM_THREADS; x++)\<close> scan for the entry of a handle, entered with
  \<open>x = 0\<close>; the result is the index at which it breaks.\<close>

function scan_handles :: "(nat \<Rightarrow> looper_thread_params) \<Rightarrow> int \<Rightarrow> nat \<Rightarrow> nat option" where
  "scan_handles info h x =
     (if x < MAX_NUM_THREADS then
        (if hComm (info x) = h then Some x else scan_handles info h (x + 1))
      else None)"
  by pat_completeness auto
termination
  by (relation "measure (\<lambda>(info, h, x). MAX_NUM_THREADS - x)") auto

declare scan_handles.simps [simp del]

text \<open>\<^verbatim>\<open>GetCommMask(hComm, &event_mask)\<close>, whose result the callers do not test: the
  variable keeps its previous value when the call fails.\<close>

definition GetCommMask :: "win_env \<Rightarrow> registry \<Rightarrow> int \<Rightarrow> int \<Rightarrow> int" where
  "GetCommMask env reg h event_mask = (if get_comm_mask_ok env then comm_mask reg h else event_mask)"

definition SetCommMask :: "win_env \<Rightarrow> registry \<Rightarrow> int \<Rightarrow> int \<Rightarrow> int \<times> registry" where
  "SetCommMask env reg h new_mask =
     (if set_comm_mask_ok env then (1, reg\<lparr> comm_mask := (comm_mask reg)(h := new_mask) \<rparr>)
      else (0, reg))"




text \<open>The \<^verbatim>\<open>else\<close> branch shared by the two destroy functions: mark the handle's entry,
  if the scan finds one, and wake the thread with \<^verbatim>\<open>SetCommMask(hComm, EV_BREAK)\<close>.\<close>

definition request_exit :: "win_consts \<Rightarrow> win_env \<Rightarrow> registry \<Rightarrow> int \<Rightarrow> registry" where
  "request_exit W env reg handle =
     (let reg1 =
            (case scan_handles (handle_looper_info reg) handle 0 of
               Some x \<Rightarrow>
                 reg\<lparr> handle_looper_info :=
                        (handle_looper_info reg)(x := (handle_looper_info reg x)\<lparr> thread_exit := 1 \<rparr>) \<rparr>
             | None \<Rightarrow> reg)
      in snd (SetCommMask env reg1 handle (EV_BREAK W)))"

text \<open>\<^verbatim>\<open>destroyDataLooperThread\<close>, with \<^verbatim>\<open>DWORD a = 0; DWORD b = a & EV_CTS;\<close> as written.\<close>

definition destroyDataLooperThread :: "win_consts \<Rightarrow> win_env \<Rightarrow> registry \<Rightarrow> int \<Rightarrow> int \<times> registry" where
  "destroyDataLooperThread W env reg handle =
     (let a = 0;
          b = a AND EV_CTS W;
          event_mask = GetCommMask env reg handle 0
      in
      if (b AND event_mask) = 1 then
        (let event_mask = 0 OR EV_BREAK W OR EV_CTS W OR EV_DSR W OR EV_ERR W OR EV_RING W
                            OR EV_RLSD W OR EV_RXFLAG W
         in case SetCommMask env reg handle event_mask of
              (ret, reg') \<Rightarrow> if ret = 0 then (- 240, reg') else (0, reg'))
      else (0, request_exit W env reg handle))"

text \<open>\<^verbatim>\<open>destroyEventLooperThread\<close>, with \<^verbatim>\<open>DWORD a = 0; DWORD b = a & EV_RXCHAR;\<close> as
  written.\<close>

definition destroyEventLooperThread :: "win_consts \<Rightarrow> win_env \<Rightarrow> registry \<Rightarrow> int \<Rightarrow> int \<times> registry" where
  "destroyEventLooperThread W env reg handle =
     (let a = 0;
          b = a AND EV_RXCHAR W;
          event_mask = GetCommMask env reg handle 0
      in
      if (b AND event_mask) = 1 then
        (let event_mask = 0 OR EV_RXCHAR W
         in case SetCommMask env reg handle event_mask of
              (ret, reg') \<Rightarrow> if ret = 0 then (- 240, reg') else (0, reg'))
      else (0, request_exit W env reg handle))"

subsection \<open>Sample registries and environments\<close>


definition win_calls_ok :: win_env where
  "win_calls_ok =
     \<lparr> new_global_ref = 1, beginthreadex = 77, get_comm_mask_ok = True, set_comm_mask_ok = True,
       uninitialised = 0, thread_init_result = 1 \<rparr>"

text \<open>Handle 5 has a looper thread, registered in slot 0, and its driver waits for the
  data event as well as for the seven control events: both listeners are registered.\<close>

definition both_roles :: registry where
  "both_roles =
     \<lparr> dtp_index = 1,
       handle_looper_info =
         (handle_looper_info (registry_init (\<lambda>_. 0)))
           (0 := \<lparr> hComm = 5, looper_ref = 1, data_enabled = 1, event_enabled = 0,
                   thread_exit = 0, thread_handle = 77 \<rparr>),
       csmutex_held = 0,
       comm_mask = (\<lambda>_. 0)(5 := 0x1FB) \<rparr>"

section \<open>Properties of \<^verbatim>\<open>serial_delay\<close>\<close>

lemma serial_delay_500: "snd (serial_delay 500) = \<lparr> tv_sec = 0, tv_nsec = 0 \<rparr>"
  by (simp add: serial_delay_def)

text \<open>
  Claim C9.  \<^verbatim>\<open>serial_delay(milliSeconds)\<close> returns 0 and asks \<^verbatim>\<open>pselect\<close> for
  \<open>milliSeconds div 1000\<close> whole seconds and zero nanoseconds, so the part of the
  argument below one second is dropped.  For every argument below 1000 the time asked
  for is zero.  In particular the pass of the Linux port monitor that has received a
  device, and calls \<^verbatim>\<open>serial_delay(500)\<close> to let udev settle, sleeps for a zero
  \<^verbatim>\<open>timespec\<close> before it does anything else.
\<close>

theorem serial_delay_whole_seconds:
  "fst (serial_delay ms) = 0 \<and>
   tv_nsec (snd (serial_delay ms)) = 0 \<and>
   tv_sec (snd (serial_delay ms)) = uint ms div 1000 \<and>
   (ms < 1000 \<longrightarrow> snd (serial_delay ms) = \<lparr> tv_sec = 0, tv_nsec = 0 \<rparr>) \<and>
   (select_ret w > 0 \<and> fd_isset w \<and> device_action w = Some a \<and> length a < 32 \<longrightarrow>
      (\<exists>rest. port_monitor_pass K w = Inr (Sleep \<lparr> tv_sec = 0, tv_nsec = 0 \<rparr> # rest)))"
proof -
  have sec: "uint (ms div 1000) = uint ms div 1000"
    by (simp add: uint_div)
  have small: "ms < 1000 \<Longrightarrow> uint ms div 1000 = 0"
    by (simp add: word_less_def)
  have pm: "select_ret w > 0 \<and> fd_isset w \<and> device_action w = Some a \<and> length a < 32 \<Longrightarrow>
      \<exists>rest. port_monitor_pass K w = Inr (Sleep \<lparr> tv_sec = 0, tv_nsec = 0 \<rparr> # rest)"
    by (auto simp: port_monitor_pass_def serial_delay_500 Let_def)
  show ?thesis
    using sec small pm by (simp add: serial_delay_def)
qed

theorem serial_delay_whole_seconds_witness:
  "(500 :: 32 word) < 1000 \<and> serial_delay 500 = (0, \<lparr> tv_sec = 0, tv_nsec = 0 \<rparr>) \<and>
   port_monitor_pass linux_headers
     \<lparr> select_ret = 1, fd_isset = True, device_action = Some ''add'', stat_ret = 0, stat_errno = 0 \<rparr>
     = Inr [Sleep \<lparr> tv_sec = 0, tv_nsec = 0 \<rparr>, Sink (OnPortMonitorEvent 1)]"
  using serial_delay_whole_seconds [of 500
     "\<lparr> select_ret = 1, fd_isset = True, device_action = Some ''add'', stat_ret = 0, stat_errno = 0 \<rparr>"
     "''add''" linux_headers]
  by (simp add: serial_delay_def port_monitor_pass_def)

section \<open>Properties of the data listener\<close>

lemmas looper_eval =
  data_looper_pass_def port_readable_def port_error_def sys_read_def data_looper_init_def
  buffer_size_def final_buf_size_def byte_array_region_def copy_partial.simps upt_rec
  linux_headers_def darwin_headers_def Let_def

subsection \<open>Array bounds\<close>

lemma sys_read_ret_le:
  "sys_read (nat buffer_size) r buf = (ret, e, buf') \<Longrightarrow> ret \<le> buffer_size"
  by (auto simp: sys_read_def buffer_size_def Let_def split: read_reply.splits)

lemma copy_partial_ok:
  "0 \<le> i \<Longrightarrow> ret \<le> buffer_size \<Longrightarrow>
   \<exists>s'. copy_partial i ret s = Inr s' \<and> index s' = index s \<and> partialData s' = partialData s \<and>
        errorCount s' = errorCount s \<and> buffer s' = buffer s \<and>
        set (stores s') \<subseteq> set (stores s) \<union> {i ..< ret}"
proof (induction i ret s rule: copy_partial.induct)
  case (1 i ret s)
  show ?case
  proof (cases "i < ret")
    case True
    then have inb: "0 \<le> i \<and> i < final_buf_size \<and> i < buffer_size"
      using 1(2,3) by (simp add: final_buf_size_def buffer_size_def)
    let ?s = "s\<lparr> final_buf := (final_buf s)(nat i := buffer s (nat i)), stores := stores s @ [i] \<rparr>"
    from 1(1)[OF True inb] 1(2,3)
    obtain s' where s': "copy_partial (i + 1) ret ?s = Inr s'" "index s' = index ?s"
      "partialData s' = partialData ?s" "errorCount s' = errorCount ?s" "buffer s' = buffer ?s"
      "set (stores s') \<subseteq> set (stores ?s) \<union> {i + 1 ..< ret}"
      by auto
    have "copy_partial i ret s = copy_partial (i + 1) ret ?s"
      using True inb by (subst copy_partial.simps) simp
    with s' True show ?thesis by auto
  next
    case False
    then show ?thesis by (subst copy_partial.simps) simp
  qed
qed

lemma copy_partial_keeps:
  assumes "stores_below s" "ret \<le> buffer_size"
  shows "\<exists>s'. copy_partial (index s) ret s = Inr s' \<and> index s' = index s \<and>
          partialData s' = partialData s \<and> errorCount s' = errorCount s \<and> buffer s' = buffer s \<and> stores_below s'"
proof -
  from assms have "0 \<le> index s" by (simp add: stores_below_def)
  from copy_partial_ok[OF this assms(2), of s] obtain s' where
    s': "copy_partial (index s) ret s = Inr s'" "index s' = index s" "partialData s' = partialData s"
       "errorCount s' = errorCount s" "buffer s' = buffer s"
       "set (stores s') \<subseteq> set (stores s) \<union> {index s ..< ret}" by blast
  have "stores_below s'"
    unfolding stores_below_def
  proof (intro conjI ballI)
    show "0 \<le> index s'" "index s' \<le> buffer_size" using s'(2) assms(1) by (simp_all add: stores_below_def)
  next
    fix i assume "i \<in> set (stores s')"
    with s'(6) have "i \<in> set (stores s) \<or> (index s \<le> i \<and> i < ret)" by auto
    then show "0 \<le> i" "i < buffer_size" using assms by (auto simp: stores_below_def)
  qed
  with s' show ?thesis by blast
qed

lemma stores_below_buffer [simp]: "stores_below (s\<lparr> buffer := b \<rparr>) = stores_below s"
  by (simp add: stores_below_def)

lemma stores_below_errorCount [simp]: "stores_below (s\<lparr> errorCount := b \<rparr>) = stores_below s"
  by (simp add: stores_below_def)

lemma read_loop_ok:
  "stores_below s \<Longrightarrow> \<exists>s' e. read_loop K rs s = Inr (s', e) \<and> stores_below s'"
proof (induction rs arbitrary: s)
  case Nil
  then show ?case by simp
next
  case (Cons r rs)
  obtain ret errno buf where rd: "sys_read (nat buffer_size) r (buffer s) = (ret, errno, buf)"
    by (cases "sys_read (nat buffer_size) r (buffer s)") auto
  then have le: "ret \<le> buffer_size" by (rule sys_read_ret_le)
  let ?s1 = "s\<lparr> buffer := buf \<rparr>"
  have s1: "stores_below ?s1" using Cons.prems by simp
  from copy_partial_keeps[OF s1 le] obtain s2 where
    s2: "copy_partial (index ?s1) ret ?s1 = Inr s2" "index s2 = index ?s1" "stores_below s2"
    by blast
  have region: "ret > 0 \<Longrightarrow> \<exists>d. byte_array_region final_buf_size (index s2 + ret) (final_buf s2) = Inr d"
    using s2(2,3) le by (simp add: byte_array_region_def stores_below_def final_buf_size_def buffer_size_def)
  have region1: "ret > 0 \<Longrightarrow> \<exists>d. byte_array_region buffer_size ret (buffer ?s1) = Inr d"
    using le by (simp add: byte_array_region_def)
  have upd: "ret > 0 \<Longrightarrow> stores_below (s2\<lparr> index := ret, partialData := 1 \<rparr>)"
    using s2(3) le by (simp add: stores_below_def)
  consider (ok) "ret > 0 \<and> errno = 0" | (part) "\<not> (ret > 0 \<and> errno = 0)" "ret > 0 \<and> errno = EINTR K"
    | (neg) "\<not> (ret > 0 \<and> errno = 0)" "\<not> (ret > 0 \<and> errno = EINTR K)" "ret < 0"
    | (zero)  "\<not> (ret > 0 \<and> errno = 0)" "\<not> (ret > 0 \<and> errno = EINTR K)" "\<not> ret < 0" "ret = 0"
    | (other) "\<not> (ret > 0 \<and> errno = 0)" "\<not> (ret > 0 \<and> errno = EINTR K)" "\<not> ret < 0" "ret \<noteq> 0"
    by blast
  then show ?case
  proof cases
    case ok
    then show ?thesis using rd s1 s2 region region1
      by (cases "partialData s = 1") (auto simp: Let_def)
  next
    case part
    from Cons.IH[OF upd] part obtain s' e where
      "read_loop K rs (s2\<lparr> index := ret, partialData := 1 \<rparr>) = Inr (s', e)" "stores_below s'" by blast
    then show ?thesis using rd part s2 by (auto simp: Let_def)
  next
    case neg
    from Cons.IH[OF s1] obtain s' e where "read_loop K rs ?s1 = Inr (s', e)" "stores_below s'" by blast
    then show ?thesis using rd neg s1 by (auto simp: Let_def)
  next
    case zero
    then show ?thesis using rd s1 by (auto simp: Let_def)
  next
    case other
    from Cons.IH[OF s1] obtain s' e where "read_loop K rs ?s1 = Inr (s', e)" "stores_below s'" by blast
    then show ?thesis using rd other s1 by (auto simp: Let_def)
  qed
qed

lemma data_looper_pass_ok:
  assumes "stores_below s"
  shows "\<exists>s' calls st. data_looper_pass K p fd wake w s = Inr (s', calls, st) \<and> stores_below s'"
proof -
  from read_loop_ok[OF assms] obtain s' e where
    rl: "read_loop K (read_replies w) s = Inr (s', e)" "stores_below s'" by blast
  show ?thesis
    using assms rl by (cases e) (auto simp: data_looper_pass_def Let_def)
qed

lemma data_looper_run_ok:
  "stores_below s \<Longrightarrow> \<exists>s' calls st. data_looper_run K p fd wake ws s = Inr (s', calls, st) \<and> stores_below s'"
proof (induction ws arbitrary: s)
  case Nil
  then show ?case by simp
next
  case (Cons w ws)
  from data_looper_pass_ok[OF Cons.prems] obtain s1 calls st where
    p: "data_looper_pass K p fd wake w s = Inr (s1, calls, st)" "stores_below s1" by blast
  from Cons.IH[OF p(2)] obtain s2 calls2 st2 where
    r: "data_looper_run K p fd wake ws s1 = Inr (s2, calls2, st2)" "stores_below s2" by blast
  show ?case using p r by (cases st) auto
qed

text \<open>
  Claim C10.  Whatever wake-ups and answers to \<^verbatim>\<open>read\<close> the thread meets after its
  start, it never accesses \<^verbatim>\<open>buffer\<close> or \<^verbatim>\<open>final_buf\<close> outside their declared sizes:
  the run never ends in a fault, the carry index stays between 0 and 1024, and every
  position of \<^verbatim>\<open>final_buf\<close> that has been written lies below 1024, hence below the
  3072 cells of the array.
\<close>

theorem final_buf_stores_in_bounds:
  "\<exists>s' calls st. data_looper_run K p fd wake ws (data_looper_init b0 f0) = Inr (s', calls, st) \<and>
      0 \<le> index s' \<and> index s' \<le> 1024 \<and>
      (\<forall>i \<in> set (stores s'). 0 \<le> i \<and> i < 1024 \<and> i < final_buf_size)"
proof -
  have "stores_below (data_looper_init b0 f0)"
    by (simp add: stores_below_def data_looper_init_def buffer_size_def)
  from data_looper_run_ok[OF this] obtain s' calls st where
    "data_looper_run K p fd wake ws (data_looper_init b0 f0) = Inr (s', calls, st)" "stores_below s'"
    by blast
  then show ?thesis
    by (auto simp: stores_below_def buffer_size_def final_buf_size_def)
qed


theorem final_buf_stores_in_bounds_witness:
  "\<exists>s calls st.
     data_looper_run linux_headers Linux 7 9 [partial_then_complete]
        (data_looper_init (\<lambda>_. 0) (\<lambda>_. 0)) = Inr (s, calls, st) \<and>
     index s = 4 \<and> stores s = [0, 1, 2, 3, 4, 5]"
  using final_buf_stores_in_bounds [of linux_headers Linux 7 9 "[partial_then_complete]" "\<lambda>_. 0" "\<lambda>_. 0"]
  by (simp add: looper_eval partial_then_complete_def)


subsection \<open>Throttled error notifications\<close>

lemma and_or_nonzero: "(x AND e) \<noteq> 0 \<Longrightarrow> (x AND (e OR h)) \<noteq> (0::int)"
  by (simp add: bit.conj_disj_distrib or_eq_0_iff)

lemma link_error_pass:
  assumes "link_error K p w"
  shows "data_looper_pass K p fd wake w s =
           (if errorCount s + 1 = 100
            then Inr (s\<lparr> errorCount := 0 \<rparr>, [InsertInDataErrorQueue (port_error_code p (ev0 w))], Running)
            else Inr (s\<lparr> errorCount := errorCount s + 1 \<rparr>, [], Running))"
proof (cases p)
  case Linux
  with assms have "(ev_flags (ev0 w) AND EPOLLERR K) \<noteq> 0" "wait_ret w > 0" "data_thread_exit w \<noteq> 1"
    by (simp_all add: link_error_def)
  then show ?thesis using Linux and_or_nonzero[of "ev_flags (ev0 w)" "EPOLLERR K" "EPOLLHUP K"]
    by (simp add: data_looper_pass_def port_readable_def port_error_def Let_def)
next
  case Apple
  with assms have "(ev_flags (ev0 w) AND EV_ERROR K) \<noteq> 0" "wait_ret w > 0" "data_thread_exit w \<noteq> 1"
    by (simp_all add: link_error_def)
  then show ?thesis using Apple
    by (simp add: data_looper_pass_def port_readable_def port_error_def Let_def)
qed

lemma data_looper_run_snoc:
  "data_looper_run K p fd wake ws s = Inr (s', calls, Running) \<Longrightarrow>
   data_looper_run K p fd wake (ws @ [w]) s =
     (case data_looper_pass K p fd wake w s' of
        Inl f \<Rightarrow> Inl f
      | Inr (s'', calls', st) \<Rightarrow> Inr (s'', calls @ calls', st))"
proof (induction ws arbitrary: s calls)
  case Nil
  then show ?case by (auto split: sum.splits thread_status.splits)
next
  case (Cons a ws)
  then show ?case
    by (auto split: sum.splits thread_status.splits prod.splits)
qed


lemma mod100_succ: "((x::int) + 1) mod 100 = (if x mod 100 + 1 = 100 then 0 else x mod 100 + 1)"
proof -
  have r: "0 \<le> x mod 100" "x mod 100 < 100" by simp_all
  have e: "(x + 1) mod 100 = (x mod 100 + 1) mod 100"
    by (simp add: mod_add_left_eq)
  show ?thesis
  proof (cases "x mod 100 + 1 = 100")
    case True
    then show ?thesis unfolding e by simp
  next
    case False
    with r have "x mod 100 + 1 < 100" by linarith
    with r(1) have "(x mod 100 + 1) mod 100 = x mod 100 + 1" by (intro mod_pos_pos_trivial) linarith+
    with False show ?thesis unfolding e by simp
  qed
qed

lemma error_storm:
  assumes "\<forall>w \<in> set ws. link_error K p w" "0 \<le> errorCount s" "errorCount s < 100"
  shows "data_looper_run K p fd wake ws s =
           Inr (s\<lparr> errorCount := (errorCount s + int (length ws)) mod 100 \<rparr>,
                map (\<lambda>j. InsertInDataErrorQueue (port_error_code p (ev0 (ws ! j))))
                    (filter (\<lambda>j. (errorCount s + int j + 1) mod 100 = 0) [0 ..< length ws]),
                Running)"
  using assms(1)
proof (induction ws rule: rev_induct)
  case Nil
  then show ?case using assms(2,3) by simp
next
  case (snoc w ws)
  let ?c = "errorCount s"
  let ?n = "length ws"
  let ?x = "?c + int ?n"
  let ?s' = "s\<lparr> errorCount := ?x mod 100 \<rparr>"
  let ?call = "\<lambda>ws j. InsertInDataErrorQueue (port_error_code p (ev0 (ws ! j)))"
  let ?P = "\<lambda>j. (?c + int j + 1) mod 100 = 0"
  let ?calls = "map (?call ws) (filter ?P [0 ..< ?n])"
  from snoc have ih: "data_looper_run K p fd wake ws s = Inr (?s', ?calls, Running)"
    and w: "link_error K p w" by simp_all
  have same: "map (?call (ws @ [w])) (filter ?P [0 ..< ?n]) = ?calls"
    by (rule map_cong) (simp_all add: nth_append)
  have len: "?c + int (length (ws @ [w])) = ?x + 1" by simp
  have run: "data_looper_run K p fd wake (ws @ [w]) s =
      (if errorCount ?s' + 1 = 100
       then Inr (?s'\<lparr> errorCount := 0 \<rparr>, ?calls @ [InsertInDataErrorQueue (port_error_code p (ev0 w))], Running)
       else Inr (?s'\<lparr> errorCount := errorCount ?s' + 1 \<rparr>, ?calls @ [], Running))"
    unfolding data_looper_run_snoc[OF ih] link_error_pass[OF w] by simp
  show ?case
  proof (cases "?x mod 100 + 1 = 100")
    case True
    then have P: "?P ?n" using mod100_succ[of ?x] by simp
    have "(?x + 1) mod 100 = 0" using True mod100_succ[of ?x] by simp
    then show ?thesis
      unfolding run len using True P same by (simp add: nth_append)
  next
    case False
    have r: "0 \<le> ?x mod 100" by simp
    have nx: "(?x + 1) mod 100 = ?x mod 100 + 1" using False mod100_succ[of ?x] by simp
    then have P: "\<not> ?P ?n" using r by simp
    note nx
    then show ?thesis
      unfolding run len using False P same by (simp add: nth_append)
  qed
qed


lemma hits_upto:
  "filter (\<lambda>j. (int j + 1) mod 100 = 0) [0 ..< k] = map (\<lambda>q. 100 * q + 99) [0 ..< k div 100]"
proof (induction k)
  case 0
  then show ?case by simp
next
  case (Suc k)
  have conv: "((int k + 1) mod 100 = 0) = (Suc k mod 100 = 0)"
  proof -
    have "int (Suc k mod 100) = (int k + 1) mod 100" by (simp add: zmod_int add.commute)
    then show ?thesis by (metis of_nat_eq_0_iff)
  qed
  show ?case
  proof (cases "Suc k mod 100 = 0")
    case True
    then have k99: "k mod 100 = 99" by (simp add: mod_Suc split: if_splits)
    have "k = 100 * (k div 100) + k mod 100" by simp
    with k99 have k: "100 * (k div 100) + 99 = k" by simp
    have d: "Suc k div 100 = Suc (k div 100)" using True by (simp add: div_Suc)
    show ?thesis using True Suc.IH conv k d by simp
  next
    case False
    then have d: "Suc k div 100 = k div 100" by (simp add: div_Suc)
    show ?thesis using False Suc.IH conv d by simp
  qed
qed

text \<open>
  Claim C5.  Take 250 wake-ups in a row that each report an error on the port, met
  with the error counter at 0.  The thread calls \<^verbatim>\<open>insertInDataErrorQueue\<close> exactly twice,
  with the codes of the 100th and of the 200th wake-up, and is still running at the
  end with the counter at 50.  After any first \<open>k\<close> of these wake-ups it is running, has
  made \<open>k div 100\<close> calls, and its counter is \<open>k mod 100\<close>: the counter is back at 0 right
  after each call.
\<close>

theorem error_notifications_throttled:
  assumes "length ws = 250" "\<forall>w \<in> set ws. link_error K p w" "errorCount s = 0"
  shows "data_looper_run K p fd wake ws s =
           Inr (s\<lparr> errorCount := 50 \<rparr>,
                [InsertInDataErrorQueue (port_error_code p (ev0 (ws ! 99))),
                 InsertInDataErrorQueue (port_error_code p (ev0 (ws ! 199)))],
                Running) \<and>
         (\<forall>k \<le> 250. \<exists>calls.
            data_looper_run K p fd wake (take k ws) s =
              Inr (s\<lparr> errorCount := int k mod 100 \<rparr>, calls, Running) \<and>
            length calls = k div 100)"
proof (intro conjI allI impI)
  have s0: "0 \<le> errorCount s" "errorCount s < 100" using assms(3) by simp_all
  show "data_looper_run K p fd wake ws s =
           Inr (s\<lparr> errorCount := 50 \<rparr>,
                [InsertInDataErrorQueue (port_error_code p (ev0 (ws ! 99))),
                 InsertInDataErrorQueue (port_error_code p (ev0 (ws ! 199)))],
                Running)"
    unfolding error_storm[OF assms(2) s0] assms(1,3)
    by (simp add: hits_upto numeral_2_eq_2)
next
  fix k :: nat assume "k \<le> 250"
  have s0: "0 \<le> errorCount s" "errorCount s < 100" using assms(3) by simp_all
  have all: "\<forall>w \<in> set (take k ws). link_error K p w"
    using assms(2) by (meson in_set_takeD)
  have len: "length (take k ws) = k" using assms(1) \<open>k \<le> 250\<close> by simp
  show "\<exists>calls. data_looper_run K p fd wake (take k ws) s =
              Inr (s\<lparr> errorCount := int k mod 100 \<rparr>, calls, Running) \<and>
            length calls = k div 100"
    unfolding error_storm[OF all s0] len assms(3)
    by (simp add: hits_upto)
qed

theorem error_notifications_throttled_witness:
  "length (replicate 250 storm_event) = 250 \<and>
   link_error linux_headers Linux storm_event \<and>
   data_looper_run linux_headers Linux 7 9 (replicate 250 storm_event)
       (data_looper_init (\<lambda>_. 0) (\<lambda>_. 0)) =
     Inr ((data_looper_init (\<lambda>_. 0) (\<lambda>_. 0))\<lparr> errorCount := 50 \<rparr>,
          [InsertInDataErrorQueue 8, InsertInDataErrorQueue 8], Running)"
proof -
  have h1: "length (replicate 250 storm_event) = 250" by simp
  have le: "link_error linux_headers Linux storm_event"
    by (simp add: link_error_def storm_event_def linux_headers_def)
  then have h2: "\<forall>w \<in> set (replicate 250 storm_event). link_error linux_headers Linux w" by simp
  have h3: "errorCount (data_looper_init (\<lambda>_. 0) (\<lambda>_. 0)) = 0" by (simp add: data_looper_init_def)
  have code: "port_error_code Linux (ev0 storm_event) = 8"
    by (simp add: port_error_code_def storm_event_def)
  from error_notifications_throttled[OF h1 h2 h3, of 7] h1 le code show ?thesis by simp
qed


subsection \<open>Reassembly of interrupted reads\<close>

text \<open>
  Claim C1, evaluated.  The port becomes readable; the first \<^verbatim>\<open>read\<close> yields the four
  bytes 1..4 with \<^verbatim>\<open>errno = EINTR\<close>, the second the six bytes 5..10 with \<^verbatim>\<open>errno = 0\<close>.
  On both platforms the thread makes one call of \<^verbatim>\<open>insertInDataQueue\<close>, with ten
  bytes; they are the four bytes of the first read, then the fifth and sixth byte of
  the second read, then four cells of \<^verbatim>\<open>final_buf\<close> that were never written (\<open>f0\<close> is
  the content the array had at thread start).  The bytes 5, 6, 7, 8 are not delivered.
\<close>

theorem partial_read_delivered_garbled:
  "(\<exists>s. data_looper_run linux_headers Linux 7 9 [partial_then_complete] (data_looper_init b0 f0) =
         Inr (s, [InsertInDataQueue [1, 2, 3, 4, 9, 10, f0 6, f0 7, f0 8, f0 9]], Running)) \<and>
   (\<exists>s. data_looper_run darwin_headers Apple 7 9 [partial_then_complete] (data_looper_init b0 f0) =
         Inr (s, [InsertInDataQueue [1, 2, 3, 4, 9, 10, f0 6, f0 7, f0 8, f0 9]], Running))"
  by (simp add: looper_eval partial_then_complete_def) (simp add: eval_nat_numeral)

text \<open>
  Claim C8, evaluated.  After the transfer above has been delivered, a second wake-up
  brings the two bytes 20, 21 in one clean \<^verbatim>\<open>read\<close>.  The thread still has
  \<^verbatim>\<open>partialData = 1\<close> and \<^verbatim>\<open>index = 4\<close>, so it delivers the first six cells of
  \<^verbatim>\<open>final_buf\<close>, left from the earlier transfer, and neither 20 nor 21.
\<close>

theorem stale_accumulator_delivered:
  "\<exists>s. data_looper_run linux_headers Linux 7 9 [partial_then_complete, fresh_read]
          (data_looper_init b0 f0) =
        Inr (s, [InsertInDataQueue [1, 2, 3, 4, 9, 10, f0 6, f0 7, f0 8, f0 9],
                 InsertInDataQueue [1, 2, 3, 4, 9, 10]], Running) \<and>
        partialData s = 1 \<and> index s = 4"
  by (simp add: looper_eval partial_then_complete_def fresh_read_def) (simp add: eval_nat_numeral)


section \<open>Properties of the event listener\<close>

lemma decode_lines_sum:
  "decode_lines K st =
     (if (st AND TIOCM_CTS K) \<noteq> 0 then 1 else 0) +
     (if (st AND TIOCM_DSR K) \<noteq> 0 then 2 else 0) +
     (if (st AND TIOCM_CD K) \<noteq> 0 then 4 else 0) +
     (if (st AND TIOCM_RI K) \<noteq> 0 then 8 else 0)"
  by (simp add: decode_lines_def CTS_def DSR_def DCD_def RI_def)

lemma decode_cts_only: "cts_only K c up \<Longrightarrow> decode_lines K (lines_status c) = (if up then 1 else 0)"
  by (auto simp: decode_lines_sum cts_only_def)

lemma event_pass_Linux:
  "0 \<le> iwait_ret c \<Longrightarrow> 0 \<le> mget_ret c \<Longrightarrow>
   event_looper_pass K Linux c old = (old, [InsertInEventQueue (decode_lines K (lines_status c))])"
  by (simp add: event_looper_pass_def)

lemma event_pass_Apple:
  "0 \<le> mget_ret c \<Longrightarrow>
   event_looper_pass K Apple c old =
     (if decode_lines K (lines_status c) \<noteq> old
      then (decode_lines K (lines_status c), [InsertInEventQueue (decode_lines K (lines_status c))])
      else (old, []))"
  by (simp add: event_looper_pass_def Let_def)

lemma event_run_Linux:
  "\<forall>c \<in> set cs. 0 \<le> iwait_ret c \<and> 0 \<le> mget_ret c \<Longrightarrow>
   event_looper_run K Linux cs old =
     (old, map (\<lambda>c. InsertInEventQueue (decode_lines K (lines_status c))) cs)"
  by (induction cs arbitrary: old) (simp_all add: event_pass_Linux)


text \<open>
  Claim C6.  Each pass turns the status word into the mask with CTS = 0x01, DSR = 0x02,
  DCD = 0x04 and RI = 0x08.  On macOS a pass whose status read succeeds calls
  \<^verbatim>\<open>insertInEventQueue\<close> exactly when the mask differs from \<^verbatim>\<open>oldstate\<close> (0 at thread
  start, afterwards the mask delivered last); on Linux a pass whose two \<^verbatim>\<open>ioctl\<close> calls
  succeed always calls it.  So for four passes that show CTS low, high, high, low with
  the other lines low, macOS delivers twice (1, then 0) and Linux four times.
\<close>

theorem event_delivery_policy:
  assumes "cts_only K c1 False" "cts_only K c2 True" "cts_only K c3 True" "cts_only K c4 False"
  shows
    "decode_lines K st =
       (if (st AND TIOCM_CTS K) \<noteq> 0 then 0x01 else 0) +
       (if (st AND TIOCM_DSR K) \<noteq> 0 then 0x02 else 0) +
       (if (st AND TIOCM_CD K) \<noteq> 0 then 0x04 else 0) +
       (if (st AND TIOCM_RI K) \<noteq> 0 then 0x08 else 0) \<and>
     (0 \<le> mget_ret c \<longrightarrow>
        event_looper_pass K Apple c old =
          (if decode_lines K (lines_status c) \<noteq> old
           then (decode_lines K (lines_status c),
                 [InsertInEventQueue (decode_lines K (lines_status c))])
           else (old, []))) \<and>
     (0 \<le> iwait_ret c \<and> 0 \<le> mget_ret c \<longrightarrow>
        event_looper_pass K Linux c old =
          (old, [InsertInEventQueue (decode_lines K (lines_status c))])) \<and>
     event_looper_run K Apple [c1, c2, c3, c4] event_looper_init =
       (0, [InsertInEventQueue 1, InsertInEventQueue 0]) \<and>
     snd (event_looper_run K Linux [c1, c2, c3, c4] old) =
       [InsertInEventQueue 0, InsertInEventQueue 1, InsertInEventQueue 1, InsertInEventQueue 0]"
proof -
  have ok: "0 \<le> mget_ret c1" "0 \<le> mget_ret c2" "0 \<le> mget_ret c3" "0 \<le> mget_ret c4"
    "0 \<le> iwait_ret c1" "0 \<le> iwait_ret c2" "0 \<le> iwait_ret c3" "0 \<le> iwait_ret c4"
    using assms by (simp_all add: cts_only_def)
  have d: "decode_lines K (lines_status c1) = 0" "decode_lines K (lines_status c2) = 1"
    "decode_lines K (lines_status c3) = 1" "decode_lines K (lines_status c4) = 0"
    using assms by (simp_all add: decode_cts_only)
  have apple: "event_looper_run K Apple [c1, c2, c3, c4] event_looper_init =
       (0, [InsertInEventQueue 1, InsertInEventQueue 0])"
    using ok d by (simp add: event_pass_Apple event_looper_init_def)
  have linux: "snd (event_looper_run K Linux [c1, c2, c3, c4] old) =
       [InsertInEventQueue 0, InsertInEventQueue 1, InsertInEventQueue 1, InsertInEventQueue 0]"
    using ok d by (simp add: event_pass_Linux)
  show ?thesis
    using apple linux decode_lines_sum[of K st] event_pass_Apple[of c K old] event_pass_Linux[of c K old]
    by simp
qed

theorem event_delivery_policy_witness:
  "cts_only linux_headers cts_low False \<and> cts_only linux_headers cts_high True \<and>
   decode_lines linux_headers 0x020 = 1 \<and>
   event_looper_pass linux_headers Apple cts_high 0 = (1, [InsertInEventQueue 1]) \<and>
   event_looper_pass linux_headers Linux cts_high 0 = (0, [InsertInEventQueue 1]) \<and>
   event_looper_run linux_headers Apple [cts_low, cts_high, cts_high, cts_low] event_looper_init =
     (0, [InsertInEventQueue 1, InsertInEventQueue 0]) \<and>
   snd (event_looper_run linux_headers Linux [cts_low, cts_high, cts_high, cts_low] 0) =
     [InsertInEventQueue 0, InsertInEventQueue 1, InsertInEventQueue 1, InsertInEventQueue 0]"
proof -
  have lo: "cts_only linux_headers cts_low False"
    by (simp add: cts_only_def cts_low_def linux_headers_def)
  have hi: "cts_only linux_headers cts_high True"
    by (simp add: cts_only_def cts_high_def linux_headers_def)
  have d: "decode_lines linux_headers 0x020 = 1"
    by (simp add: decode_lines_def linux_headers_def CTS_def)
  have st: "lines_status cts_high = 0x020" "0 \<le> mget_ret cts_high" "0 \<le> iwait_ret cts_high"
    by (simp_all add: cts_high_def)
  from event_delivery_policy[OF lo hi hi lo, of "0x020" cts_high 0] lo hi d st
  show ?thesis by simp
qed


section \<open>Properties of the port monitor\<close>

lemma stat_probe_iff:
  "stat_probe K r e = (if r \<noteq> 0 \<and> e \<notin> benign_errnos K then [OnPortMonitorEvent 2] else [])"
proof (cases "r = 0")
  case True
  then show ?thesis by (simp add: stat_probe_def)
next
  case False
  show ?thesis
  proof (cases "e \<in> benign_errnos K")
    case True
    then have "stat_probe K r e = []"
      unfolding benign_errnos_def by (elim insertE emptyE) (simp_all add: stat_probe_def)
    with True show ?thesis by simp
  next
    case notin: False
    then have "e \<noteq> EACCES K" "e \<noteq> ELOOP K" "e \<noteq> ENAMETOOLONG K" "e \<noteq> ENOMEM K"
      "e \<noteq> ENOTDIR K" "e \<noteq> EOVERFLOW K" "e \<noteq> EFAULT K"
      by (simp_all add: benign_errnos_def)
    then have "stat_probe K r e = [OnPortMonitorEvent 2]" using False by (simp add: stat_probe_def)
    with notin False show ?thesis by simp
  qed
qed

lemma removal_pass:
  "port_monitor_pass K (removal_wakeup r e) =
     Inr (Sleep \<lparr> tv_sec = 0, tv_nsec = 0 \<rparr> # map Sink (stat_probe K r e))"
  by (simp add: port_monitor_pass_def removal_wakeup_def serial_delay_500 Let_def)

text \<open>
  Claim C4.  On a removal notification (message type \<^verbatim>\<open>kIOMessageServiceIsTerminated\<close> on
  macOS, action \<^verbatim>\<open>"remove"\<close> on Linux) the monitor calls \<^verbatim>\<open>stat\<close> on the port's path and
  calls the listener with code 2 exactly when \<^verbatim>\<open>stat\<close> fails with an error number
  outside \<^verbatim>\<open>EACCES\<close>, \<^verbatim>\<open>ELOOP\<close>, \<^verbatim>\<open>ENAMETOOLONG\<close>, \<^verbatim>\<open>ENOMEM\<close>, \<^verbatim>\<open>ENOTDIR\<close>, \<^verbatim>\<open>EOVERFLOW\<close>,
  \<^verbatim>\<open>EFAULT\<close>; then it calls once.  A failure with \<^verbatim>\<open>EACCES\<close>, \<^verbatim>\<open>ELOOP\<close> or
  \<^verbatim>\<open>ENAMETOOLONG\<close> gives no call, a failure with \<^verbatim>\<open>ENOENT\<close> gives one (the header's
  \<^verbatim>\<open>ENOENT\<close> being none of the seven numbers above).
\<close>

theorem removal_revalidated:
  assumes "ENOENT K \<notin> benign_errnos K" "ret \<noteq> 0"
  shows
    "device_removed K (kIOMessageServiceIsTerminated K) r e =
       (if r \<noteq> 0 \<and> e \<notin> benign_errnos K then [OnPortMonitorEvent 2] else []) \<and>
     port_monitor_pass K (removal_wakeup r e) =
       Inr (Sleep \<lparr> tv_sec = 0, tv_nsec = 0 \<rparr> #
            (if r \<noteq> 0 \<and> e \<notin> benign_errnos K then [Sink (OnPortMonitorEvent 2)] else [])) \<and>
     device_removed K (kIOMessageServiceIsTerminated K) ret (EACCES K) = [] \<and>
     device_removed K (kIOMessageServiceIsTerminated K) ret (ELOOP K) = [] \<and>
     device_removed K (kIOMessageServiceIsTerminated K) ret (ENAMETOOLONG K) = [] \<and>
     device_removed K (kIOMessageServiceIsTerminated K) ret (ENOENT K) = [OnPortMonitorEvent 2] \<and>
     port_monitor_pass K (removal_wakeup ret (EACCES K)) = Inr [Sleep \<lparr> tv_sec = 0, tv_nsec = 0 \<rparr>] \<and>
     port_monitor_pass K (removal_wakeup ret (ELOOP K)) = Inr [Sleep \<lparr> tv_sec = 0, tv_nsec = 0 \<rparr>] \<and>
     port_monitor_pass K (removal_wakeup ret (ENAMETOOLONG K)) = Inr [Sleep \<lparr> tv_sec = 0, tv_nsec = 0 \<rparr>] \<and>
     port_monitor_pass K (removal_wakeup ret (ENOENT K)) =
       Inr [Sleep \<lparr> tv_sec = 0, tv_nsec = 0 \<rparr>, Sink (OnPortMonitorEvent 2)]"
proof -
  have b: "EACCES K \<in> benign_errnos K" "ELOOP K \<in> benign_errnos K" "ENAMETOOLONG K \<in> benign_errnos K"
    by (simp_all add: benign_errnos_def)
  show ?thesis
    using assms b by (simp add: device_removed_def removal_pass stat_probe_iff)
qed

theorem removal_revalidated_witness:
  "ENOENT linux_headers \<notin> benign_errnos linux_headers \<and> (- 1 :: int) \<noteq> 0 \<and>
   device_removed linux_headers 0xe0000010 (- 1) 13 = [] \<and>
   device_removed linux_headers 0xe0000010 (- 1) 2 = [OnPortMonitorEvent 2] \<and>
   port_monitor_pass linux_headers (removal_wakeup (- 1) 13) = Inr [Sleep \<lparr> tv_sec = 0, tv_nsec = 0 \<rparr>] \<and>
   port_monitor_pass linux_headers (removal_wakeup (- 1) 2) =
     Inr [Sleep \<lparr> tv_sec = 0, tv_nsec = 0 \<rparr>, Sink (OnPortMonitorEvent 2)]"
proof -
  have h1: "ENOENT linux_headers \<notin> benign_errnos linux_headers"
    by (simp add: benign_errnos_def linux_headers_def)
  have h2: "(- 1 :: int) \<noteq> 0" by simp
  have k: "kIOMessageServiceIsTerminated linux_headers = 0xe0000010" "EACCES linux_headers = 13"
    "ENOENT linux_headers = 2"
    by (simp_all add: linux_headers_def)
  from removal_revalidated[OF h1 h2, of 0 0] h1 show ?thesis
    unfolding k by simp
qed












section \<open>Properties of registering and unregistering on Windows\<close>







text \<open>
  Claim C3, evaluated.  \<^verbatim>\<open>b\<close> is computed from \<^verbatim>\<open>a = 0\<close>, so the test
  \<^verbatim>\<open>(b & event_mask) == 1\<close> fails for every mask, and both destroy functions always take
  the branch that sets \<^verbatim>\<open>thread_exit\<close> and wakes the thread.  With both listeners
  registered for handle 5, \<^verbatim>\<open>destroyDataLooperThread\<close> leaves the entry with
  \<^verbatim>\<open>thread_exit = 1\<close> and the driver's mask at \<^verbatim>\<open>EV_BREAK\<close> instead of the control events.
\<close>

theorem unregister_always_requests_exit:
  "destroyDataLooperThread W env reg h = (0, request_exit W env reg h) \<and>
   destroyEventLooperThread W env reg h = (0, request_exit W env reg h) \<and>
   thread_exit (handle_looper_info (snd (destroyDataLooperThread winbase_h win_calls_ok both_roles 5)) 0) = 1 \<and>
   comm_mask (snd (destroyDataLooperThread winbase_h win_calls_ok both_roles 5)) 5 = 0x40"
proof -
  have a: "destroyDataLooperThread W env reg h = (0, request_exit W env reg h)" for W env reg h
    by (simp add: destroyDataLooperThread_def Let_def)
  have b: "destroyEventLooperThread W env reg h = (0, request_exit W env reg h)"
    by (simp add: destroyEventLooperThread_def Let_def)
  have s: "scan_handles (handle_looper_info both_roles) 5 0 = Some 0"
    by (subst scan_handles.simps) (simp add: both_roles_def MAX_NUM_THREADS_def)
  have c: "thread_exit (handle_looper_info (request_exit winbase_h win_calls_ok both_roles 5) 0) = 1"
    "comm_mask (request_exit winbase_h win_calls_ok both_roles 5) 5 = 0x40"
    by (simp_all add: request_exit_def s SetCommMask_def win_calls_ok_def winbase_h_def Let_def)
  show ?thesis using a b c by simp
qed


end
